theory Spec2Isabelle
  imports Main "HOL-Library.Word" "HOL-Library.Option_ord" "HOL-Library.Product_Lexorder"
begin

section \<open>JavaScript values\<close>

text \<open>
  A JavaScript string is a sequence of UTF-16 code units. \<open>str\<close> writes an ASCII literal
  of the source as such a sequence.
\<close>

type_synonym jschar = "16 word"
type_synonym jsstring = "jschar list"

definition str :: "string \<Rightarrow> jsstring" where
  "str s = map (\<lambda>c. of_nat (of_char c)) s"

text \<open>
  The values \<open>express.json()\<close> can put into \<open>req.body\<close>. \<open>undefined\<close> is \<open>None\<close> of
  \<open>json option\<close>. Numbers are kept to the integers. An object keeps its properties in
  the order of the text; as \<open>JSON.parse\<close> does, a lookup takes the last one of a name.
\<close>

datatype json =
    JNull
  | JBool bool
  | JNum int
  | JStr jsstring
  | JArr "json list"
  | JObj "(jsstring \<times> json) list"

datatype error =
    TypeError
  | InvalidTextRepresentation
  | NumericValueOutOfRange
  | StringDataRightTruncation
  | ForeignKeyViolation
  | UniqueViolation
  | InFailedSqlTransaction

text \<open>\<open>!v\<close> is \<open>\<not> truthy v\<close>.\<close>

fun truthy :: "json option \<Rightarrow> bool" where
  "truthy None = False"
| "truthy (Some JNull) = False"
| "truthy (Some (JBool b)) = b"
| "truthy (Some (JNum n)) = (n \<noteq> 0)"
| "truthy (Some (JStr s)) = (s \<noteq> [])"
| "truthy (Some (JArr xs)) = True"
| "truthy (Some (JObj kvs)) = True"

text \<open>
  \<open>v.k\<close> for one of the property names server.js reads (\<open>results\<close>, \<open>page_number\<close>,
  \<open>position\<close>, \<open>title\<close>, \<open>url\<close>, \<open>domain\<close>, \<open>description\<close>, \<open>type\<close>): a TypeError on
  \<open>null\<close>, the property of an object, and \<open>undefined\<close> on every other value, none of
  whose prototypes has a property of these names.
\<close>

fun member :: "json \<Rightarrow> jsstring \<Rightarrow> error + json option" where
  "member JNull k = Inl TypeError"
| "member (JObj kvs) k = Inr (map_of (rev kvs) k)"
| "member v k = Inr None"

text \<open>
  \<open>const { k } = req.body\<close>. The body parser (strict mode) lets only objects and arrays
  through and leaves \<open>{}\<close> when there is no JSON body, so the destructuring does not throw.
\<close>

fun field :: "json \<Rightarrow> jsstring \<Rightarrow> json option" where
  "field (JObj kvs) k = map_of (rev kvs) k"
| "field v k = None"

fun isArray :: "json option \<Rightarrow> bool" where
  "isArray (Some (JArr xs)) = True"
| "isArray v = False"

text \<open>
  \<open>for (const x of v)\<close> for a truthy \<open>v\<close>: the elements of an array, the characters of a
  string (each a string itself; a surrogate pair is kept as two), a TypeError on anything
  else.
\<close>

fun iterate :: "json option \<Rightarrow> error + json list" where
  "iterate (Some (JArr xs)) = Inr xs"
| "iterate (Some (JStr s)) = Inr (map (\<lambda>c. JStr [c]) s)"
| "iterate v = Inl TypeError"

text \<open>
  \<open>String.prototype.trim\<close> removes the WhiteSpace and LineTerminator code points of
  ECMAScript from both ends.
\<close>

definition is_ws :: "jschar \<Rightarrow> bool" where
  "is_ws c \<longleftrightarrow>
     c = 0x0009 \<or> c = 0x000A \<or> c = 0x000B \<or> c = 0x000C \<or> c = 0x000D \<or> c = 0x0020 \<or>
     c = 0x00A0 \<or> c = 0x1680 \<or> (0x2000 \<le> c \<and> c \<le> 0x200A) \<or> c = 0x2028 \<or>
     c = 0x2029 \<or> c = 0x202F \<or> c = 0x205F \<or> c = 0x3000 \<or> c = 0xFEFF"

definition trim :: "jsstring \<Rightarrow> jsstring" where
  "trim s = rev (dropWhile is_ws (rev (dropWhile is_ws s)))"


section \<open>The tables of init.sql\<close>

text \<open>
  A uuid is kept as its canonical text (8-4-4-4-12 lower-case hexadecimal digits), the
  form PostgreSQL prints; the other spellings its input accepts are not modelled.
\<close>

type_synonym uuid = jsstring

definition is_hex :: "jschar \<Rightarrow> bool" where
  "is_hex c \<longleftrightarrow> (0x30 \<le> c \<and> c \<le> 0x39) \<or> (0x61 \<le> c \<and> c \<le> 0x66)"

definition is_uuid :: "jsstring \<Rightarrow> bool" where
  "is_uuid s \<longleftrightarrow> length s = 36 \<and>
     list_all (\<lambda>(i, c). if i \<in> {8, 13, 18, 23} then c = 0x2D else is_hex c)
       (zip [0 ..< 36] s)"

text \<open>
  \<open>status VARCHAR(20) DEFAULT 'pending'\<close>: server.js writes \<open>'processing'\<close> and
  \<open>'completed'\<close> and nothing else.
\<close>

datatype status = Pending | Processing | Completed

text \<open>
  A row of \<open>queries\<close>. \<open>project_id\<close>, \<open>priority\<close> and \<open>processed_at\<close> can be NULL
  (\<open>None\<close>); the other columns never are in a row that server.js has written. Times
  are in ticks of the server clock.
\<close>

record query =
  q_id :: uuid
  project_id :: "uuid option"
  search_term :: jsstring
  status :: status
  priority :: "int option"
  created_at :: nat
  processed_at :: "nat option"

text \<open>
  A TEXT or VARCHAR value is kept as the JavaScript value whose text node-postgres sent;
  NULL is \<open>None\<close>. The generated columns \<open>id\<close> and \<open>created_at\<close> of the three child
  tables are read by no statement modelled here and are left out.
\<close>

type_synonym sqltext = "json option"

record result_row =
  r_query_id :: "uuid option"
  r_page_number :: "int option"
  r_position :: "int option"
  r_title :: sqltext
  r_url :: sqltext
  r_domain :: sqltext
  r_description :: sqltext
  r_result_type :: sqltext

record suggestion_row =
  s_query_id :: "uuid option"
  s_suggestion :: sqltext

record related_row =
  rs_query_id :: "uuid option"
  rs_search_term :: sqltext

text \<open>Of \<open>projects\<close> only the primary keys are read (by the foreign key of \<open>queries\<close>).\<close>

record db =
  projects :: "uuid list"
  queries :: "query list"
  results :: "result_row list"
  suggestions :: "suggestion_row list"
  related_searches :: "related_row list"


section \<open>Parameters: from JavaScript values to column values\<close>

text \<open>
  node-postgres sends \<open>undefined\<close> and \<open>null\<close> as NULL and every other value as text,
  which PostgreSQL reads by the input function of the column's type.
\<close>

fun text_in :: "json option \<Rightarrow> sqltext" where
  "text_in (Some JNull) = None"
| "text_in v = v"

text \<open>
  VARCHAR(n): a string longer than \<open>n\<close> is an error unless all that exceeds \<open>n\<close> is
  spaces, which are cut off. The length is counted in code units here. The length of the
  text of a value that is not a string is not modelled (it is accepted).
\<close>

fun varchar_in :: "nat \<Rightarrow> json option \<Rightarrow> error + sqltext" where
  "varchar_in n (Some (JStr s)) =
     (if length s \<le> n then Inr (Some (JStr s))
      else if list_all (\<lambda>c. c = 0x20) (drop n s) then Inr (Some (JStr (take n s)))
      else Inl StringDataRightTruncation)"
| "varchar_in n v = Inr (text_in v)"

definition digit :: "jschar \<Rightarrow> nat option" where
  "digit c = (if 0x30 \<le> c \<and> c \<le> 0x39 then Some (unat c - 48) else None)"

fun digits :: "nat \<Rightarrow> jsstring \<Rightarrow> nat option" where
  "digits acc [] = Some acc"
| "digits acc (c # cs) =
     (case digit c of None \<Rightarrow> None | Some d \<Rightarrow> digits (10 * acc + d) cs)"

text \<open>A decimal integer with an optional sign; the blanks PostgreSQL allows around it are not modelled.\<close>

fun int_of_text :: "jsstring \<Rightarrow> int option" where
  "int_of_text [] = None"
| "int_of_text (c # cs) =
     (if c = 0x2D then (if cs = [] then None else map_option (\<lambda>n. - int n) (digits 0 cs))
      else if c = 0x2B then (if cs = [] then None else map_option int (digits 0 cs))
      else map_option int (digits 0 (c # cs)))"

definition int4_range :: "int \<Rightarrow> error + int option" where
  "int4_range n =
     (if - 2147483648 \<le> n \<and> n \<le> 2147483647 then Inr (Some n) else Inl NumericValueOutOfRange)"

fun int4_in :: "json option \<Rightarrow> error + int option" where
  "int4_in None = Inr None"
| "int4_in (Some JNull) = Inr None"
| "int4_in (Some (JNum n)) = int4_range n"
| "int4_in (Some (JStr s)) =
     (case int_of_text s of None \<Rightarrow> Inl InvalidTextRepresentation | Some n \<Rightarrow> int4_range n)"
| "int4_in (Some v) = Inl InvalidTextRepresentation"

fun uuid_in :: "json option \<Rightarrow> error + uuid option" where
  "uuid_in None = Inr None"
| "uuid_in (Some JNull) = Inr None"
| "uuid_in (Some (JStr s)) = (if is_uuid s then Inr (Some s) else Inl InvalidTextRepresentation)"
| "uuid_in (Some v) = Inl InvalidTextRepresentation"


section \<open>The SQL statements of server.js\<close>

text \<open>
  What a call of \<open>pool.query\<close> gets from outside the program: the connection the pool
  hands the statement to, the value of CURRENT_TIMESTAMP (taken at the statement, also
  inside a transaction block), and the value of \<open>gen_random_uuid()\<close>. The calls are
  numbered in the order they are made.
\<close>

record env =
  conn :: nat
  now :: nat
  fresh :: uuid

type_synonym world = "nat \<Rightarrow> env"

datatype stmt =
    Begin
  | Commit
  | Rollback
  | ClaimNext
  | InsertResult "json option" "json option" "json option" "json option"
      "json option" "json option" "json option" "json option"
  | InsertSuggestion "json option" "json option"
  | InsertRelated "json option" "json option"
  | SetStatus status "json option"
  | InsertQuery "json option" jsstring "json option"

text \<open>The changes a statement makes to the tables.\<close>

datatype change =
    WClaim uuid nat
  | WResult result_row
  | WSuggestion suggestion_row
  | WRelated related_row
  | WStatus status uuid
  | WQuery query

fun apply_change :: "db \<Rightarrow> change \<Rightarrow> db" where
  "apply_change d (WClaim i t) =
     d\<lparr>queries := map (\<lambda>q. if q_id q = i then q\<lparr>status := Processing, processed_at := Some t\<rparr>
                             else q) (queries d)\<rparr>"
| "apply_change d (WResult r) = d\<lparr>results := results d @ [r]\<rparr>"
| "apply_change d (WSuggestion r) = d\<lparr>suggestions := suggestions d @ [r]\<rparr>"
| "apply_change d (WRelated r) = d\<lparr>related_searches := related_searches d @ [r]\<rparr>"
| "apply_change d (WStatus s i) =
     d\<lparr>queries := map (\<lambda>q. if q_id q = i then q\<lparr>status := s\<rparr> else q) (queries d)\<rparr>"
| "apply_change d (WQuery q) = d\<lparr>queries := queries d @ [q]\<rparr>"

definition apply_changes :: "db \<Rightarrow> change list \<Rightarrow> db" where
  "apply_changes d ws = foldl apply_change d ws"

text \<open>
  \<open>SELECT id FROM queries WHERE status = 'pending' ORDER BY priority DESC, created_at
  LIMIT 1\<close>. In a descending order NULL comes first, so the sort key of a priority is
  its negation with \<open>None\<close> least. Among rows equal in both keys PostgreSQL may take any;
  the model takes the first of the table.
\<close>

definition claim_key :: "query \<Rightarrow> int option \<times> nat" where
  "claim_key q = (map_option uminus (priority q), created_at q)"

definition select_next :: "db \<Rightarrow> uuid list" where
  "select_next d =
     map q_id (take 1 (sort_key claim_key (filter (\<lambda>q. status q = Pending) (queries d))))"

text \<open>A foreign key: NULL passes, any other value must be a key of the table referred to.\<close>

definition references :: "uuid option \<Rightarrow> uuid list \<Rightarrow> bool" where
  "references v keys \<longleftrightarrow> (case v of None \<Rightarrow> True | Some u \<Rightarrow> u \<in> set keys)"

type_synonym row = "uuid \<times> jsstring"

text \<open>
  What a statement other than BEGIN, COMMIT and ROLLBACK does on the tables it sees:
  an error, or its writes and the rows of its RETURNING clause.
\<close>

fun eval_stmt :: "env \<Rightarrow> stmt \<Rightarrow> db \<Rightarrow> error + change list \<times> row list" where
  "eval_stmt e ClaimNext d =
     (case select_next d of
        [] \<Rightarrow> Inr ([], [])
      | i # _ \<Rightarrow> Inr ([WClaim i (now e)],
                     map (\<lambda>q. (q_id q, search_term q)) (filter (\<lambda>q. q_id q = i) (queries d))))"
| "eval_stmt e (InsertResult qi pn pos ti ur dm de ty) d =
     (case uuid_in qi of Inl x \<Rightarrow> Inl x | Inr qi' \<Rightarrow>
     (case int4_in pn of Inl x \<Rightarrow> Inl x | Inr pn' \<Rightarrow>
     (case int4_in pos of Inl x \<Rightarrow> Inl x | Inr pos' \<Rightarrow>
     (case varchar_in 255 dm of Inl x \<Rightarrow> Inl x | Inr dm' \<Rightarrow>
     (case varchar_in 50 ty of Inl x \<Rightarrow> Inl x | Inr ty' \<Rightarrow>
      if references qi' (map q_id (queries d))
      then Inr ([WResult \<lparr>r_query_id = qi', r_page_number = pn', r_position = pos',
                   r_title = text_in ti, r_url = text_in ur, r_domain = dm',
                   r_description = text_in de, r_result_type = ty'\<rparr>], [])
      else Inl ForeignKeyViolation)))))"
| "eval_stmt e (InsertSuggestion qi su) d =
     (case uuid_in qi of Inl x \<Rightarrow> Inl x | Inr qi' \<Rightarrow>
      if references qi' (map q_id (queries d))
      then Inr ([WSuggestion \<lparr>s_query_id = qi', s_suggestion = text_in su\<rparr>], [])
      else Inl ForeignKeyViolation)"
| "eval_stmt e (InsertRelated qi te) d =
     (case uuid_in qi of Inl x \<Rightarrow> Inl x | Inr qi' \<Rightarrow>
      if references qi' (map q_id (queries d))
      then Inr ([WRelated \<lparr>rs_query_id = qi', rs_search_term = text_in te\<rparr>], [])
      else Inl ForeignKeyViolation)"
| "eval_stmt e (SetStatus s qi) d =
     (case uuid_in qi of Inl x \<Rightarrow> Inl x
      | Inr None \<Rightarrow> Inr ([], [])
      | Inr (Some i) \<Rightarrow> Inr ([WStatus s i], []))"
| "eval_stmt e (InsertQuery pr t pri) d =
     (case uuid_in pr of Inl x \<Rightarrow> Inl x | Inr pr' \<Rightarrow>
     (case int4_in pri of Inl x \<Rightarrow> Inl x | Inr pri' \<Rightarrow>
      if \<not> references pr' (projects d) then Inl ForeignKeyViolation
      else if fresh e \<in> set (map q_id (queries d)) then Inl UniqueViolation
      else Inr ([WQuery \<lparr>q_id = fresh e, project_id = pr', search_term = t,
                   status = Pending, priority = pri', created_at = now e,
                   processed_at = None\<rparr>], [])))"
| "eval_stmt e s d = Inr ([], [])"


section \<open>The connection pool\<close>

text \<open>
  A connection is outside a transaction block, inside one with the writes made in it so
  far, or inside one that has failed. \<open>store\<close> holds the committed tables. \<open>log\<close> records
  every statement sent, with the connection it went to.
\<close>

datatype conn_state = Idle | InTxn "change list" | Aborted

record pool =
  store :: db
  conns :: "nat \<Rightarrow> conn_state"
  log :: "(nat \<times> stmt) list"

text \<open>
  \<open>pool.query(text, values)\<close>: the pool hands the statement to a connection of its
  choice and releases the connection when the statement is done. Outside a transaction
  block a statement commits by itself and COMMIT and ROLLBACK do nothing; inside one, a
  statement sees the block's own writes, an error makes the block fail, a failed block
  refuses every statement until it ends, and BEGIN does nothing.
\<close>

fun on_conn :: "env \<Rightarrow> stmt \<Rightarrow> db \<Rightarrow> conn_state \<Rightarrow> (error + row list) \<times> db \<times> conn_state" where
  "on_conn e Begin d Idle = (Inr [], d, InTxn [])"
| "on_conn e Commit d Idle = (Inr [], d, Idle)"
| "on_conn e Rollback d Idle = (Inr [], d, Idle)"
| "on_conn e s d Idle =
     (case eval_stmt e s d of
        Inl x \<Rightarrow> (Inl x, d, Idle)
      | Inr (ws, rows) \<Rightarrow> (Inr rows, apply_changes d ws, Idle))"
| "on_conn e Begin d (InTxn p) = (Inr [], d, InTxn p)"
| "on_conn e Commit d (InTxn p) = (Inr [], apply_changes d p, Idle)"
| "on_conn e Rollback d (InTxn p) = (Inr [], d, Idle)"
| "on_conn e s d (InTxn p) =
     (case eval_stmt e s (apply_changes d p) of
        Inl x \<Rightarrow> (Inl x, d, Aborted)
      | Inr (ws, rows) \<Rightarrow> (Inr rows, d, InTxn (p @ ws)))"
| "on_conn e Commit d Aborted = (Inr [], d, Idle)"
| "on_conn e Rollback d Aborted = (Inr [], d, Idle)"
| "on_conn e s d Aborted = (Inl InFailedSqlTransaction, d, Aborted)"

definition pool_query :: "world \<Rightarrow> stmt \<Rightarrow> pool \<Rightarrow> (error + row list) \<times> pool" where
  "pool_query w s st =
     (let e = w (length (log st)); c = conn e in
      case on_conn e s (store st) (conns st c) of
        (r, d, cs) \<Rightarrow> (r, \<lparr>store = d, conns = (conns st)(c := cs), log = log st @ [(c, s)]\<rparr>))"


section \<open>The worker endpoints\<close>

record request =
  headers :: "(jsstring \<times> jsstring) list"
  params :: "(jsstring \<times> jsstring) list"
  body :: json

text \<open>
  A response: a status code with a JSON body, or what \<open>handleError\<close> sends, status 500
  with the given message and the message of the error caught.
\<close>

datatype response = Json nat json | Error500 jsstring error

text \<open>
  \<open>validateApiKey\<close> with \<open>process.env.API_KEY\<close> as \<open>api_key\<close>: \<open>None\<close> is the 401 response,
  otherwise \<open>next()\<close> runs the handler.
\<close>

definition validateApiKey ::
  "jsstring option \<Rightarrow> request \<Rightarrow> (request \<Rightarrow> pool \<Rightarrow> response \<times> pool) \<Rightarrow> pool \<Rightarrow> response \<times> pool"
where
  "validateApiKey api_key req next st =
     (let apiKey = map_of (headers req) (str ''x-api-key'') in
      if \<not> truthy (map_option JStr apiKey) \<or> apiKey \<noteq> api_key
      then (Json 401 (JObj [(str ''error'', JStr (str ''Invalid API key''))]), st)
      else next req st)"

text \<open>The handler of \<open>GET /api/v1/queries/next\<close>; \<open>work\<close> is the object it answers with.\<close>

definition work :: "row \<Rightarrow> json" where
  "work r = JObj [(str ''query_id'', JStr (fst r)), (str ''search_term'', JStr (snd r)),
                  (str ''max_pages'', JNum 5)]"

definition queries_next :: "world \<Rightarrow> request \<Rightarrow> pool \<Rightarrow> response \<times> pool" where
  "queries_next w req st =
     (case pool_query w ClaimNext st of
        (Inl x, st') \<Rightarrow> (Error500 (str ''Failed to get next query'') x, st')
      | (Inr rows, st') \<Rightarrow>
          (if length rows > 0 then (Json 200 (work (hd rows)), st')
           else (Json 200 JNull, st')))"

definition get_queries_next :: "jsstring option \<Rightarrow> world \<Rightarrow> request \<Rightarrow> pool \<Rightarrow> response \<times> pool" where
  "get_queries_next api_key w req st = validateApiKey api_key req (queries_next w) st"

text \<open>
  The handler of \<open>POST /api/v1/results\<close>. \<open>result_stmt\<close> builds the INSERT for one result
  of a page; reading a property of \<open>null\<close> throws.
\<close>

definition result_stmt :: "json option \<Rightarrow> json \<Rightarrow> json \<Rightarrow> error + stmt" where
  "result_stmt query_id page result =
     (case member page (str ''page_number'') of Inl x \<Rightarrow> Inl x | Inr pn \<Rightarrow>
     (case member result (str ''position'') of Inl x \<Rightarrow> Inl x | Inr pos \<Rightarrow>
     (case member result (str ''title'') of Inl x \<Rightarrow> Inl x | Inr ti \<Rightarrow>
     (case member result (str ''url'') of Inl x \<Rightarrow> Inl x | Inr ur \<Rightarrow>
     (case member result (str ''domain'') of Inl x \<Rightarrow> Inl x | Inr dm \<Rightarrow>
     (case member result (str ''description'') of Inl x \<Rightarrow> Inl x | Inr de \<Rightarrow>
     (case member result (str ''type'') of Inl x \<Rightarrow> Inl x | Inr ty \<Rightarrow>
      Inr (InsertResult query_id pn pos ti ur dm de
             (if truthy ty then ty else Some (JStr (str ''organic'')))))))))))"

fun insert_results ::
  "world \<Rightarrow> json option \<Rightarrow> json \<Rightarrow> json list \<Rightarrow> pool \<Rightarrow> (error + unit) \<times> pool"
where
  "insert_results w query_id page [] st = (Inr (), st)"
| "insert_results w query_id page (result # rest) st =
     (case result_stmt query_id page result of
        Inl x \<Rightarrow> (Inl x, st)
      | Inr s \<Rightarrow>
          (case pool_query w s st of
             (Inl x, st') \<Rightarrow> (Inl x, st')
           | (Inr _, st') \<Rightarrow> insert_results w query_id page rest st'))"

fun insert_pages ::
  "world \<Rightarrow> json option \<Rightarrow> json list \<Rightarrow> pool \<Rightarrow> (error + unit) \<times> pool"
where
  "insert_pages w query_id [] st = (Inr (), st)"
| "insert_pages w query_id (page # rest) st =
     (case member page (str ''results'') of
        Inl x \<Rightarrow> (Inl x, st)
      | Inr rs \<Rightarrow>
          if truthy rs \<and> isArray rs then
            (case iterate rs of
               Inl x \<Rightarrow> (Inl x, st)
             | Inr xs \<Rightarrow>
                 (case insert_results w query_id page xs st of
                    (Inl x, st') \<Rightarrow> (Inl x, st')
                  | (Inr _, st') \<Rightarrow> insert_pages w query_id rest st'))
          else insert_pages w query_id rest st)"

text \<open>The two loops with one INSERT for each element.\<close>

fun insert_each ::
  "world \<Rightarrow> (json option \<Rightarrow> stmt) \<Rightarrow> json list \<Rightarrow> pool \<Rightarrow> (error + unit) \<times> pool"
where
  "insert_each w ins [] st = (Inr (), st)"
| "insert_each w ins (x # xs) st =
     (case pool_query w (ins (Some x)) st of
        (Inl e, st') \<Rightarrow> (Inl e, st')
      | (Inr _, st') \<Rightarrow> insert_each w ins xs st')"

definition insert_list ::
  "world \<Rightarrow> (json option \<Rightarrow> stmt) \<Rightarrow> json option \<Rightarrow> pool \<Rightarrow> (error + unit) \<times> pool"
where
  "insert_list w ins v st =
     (if truthy v \<and> isArray v then
        (case iterate v of Inl x \<Rightarrow> (Inl x, st) | Inr xs \<Rightarrow> insert_each w ins xs st)
      else (Inr (), st))"

text \<open>The \<open>try\<close> block.\<close>

definition save_results ::
  "world \<Rightarrow> json option \<Rightarrow> json option \<Rightarrow> json option \<Rightarrow> json option \<Rightarrow> pool
     \<Rightarrow> (error + unit) \<times> pool"
where
  "save_results w query_id pages suggestions' related_searches' st =
     (case pool_query w Begin st of (Inl x, st1) \<Rightarrow> (Inl x, st1) | (Inr _, st1) \<Rightarrow>
     (case iterate pages of Inl x \<Rightarrow> (Inl x, st1) | Inr ps \<Rightarrow>
     (case insert_pages w query_id ps st1 of (Inl x, st2) \<Rightarrow> (Inl x, st2) | (Inr _, st2) \<Rightarrow>
     (case insert_list w (InsertSuggestion query_id) suggestions' st2 of
        (Inl x, st3) \<Rightarrow> (Inl x, st3) | (Inr _, st3) \<Rightarrow>
     (case insert_list w (InsertRelated query_id) related_searches' st3 of
        (Inl x, st4) \<Rightarrow> (Inl x, st4) | (Inr _, st4) \<Rightarrow>
     (case pool_query w (SetStatus Completed query_id) st4 of
        (Inl x, st5) \<Rightarrow> (Inl x, st5) | (Inr _, st5) \<Rightarrow>
     (case pool_query w Commit st5 of
        (Inl x, st6) \<Rightarrow> (Inl x, st6) | (Inr _, st6) \<Rightarrow> (Inr (), st6))))))))"

definition results_handler :: "world \<Rightarrow> request \<Rightarrow> pool \<Rightarrow> response \<times> pool" where
  "results_handler w req st =
     (let query_id = field (body req) (str ''query_id'');
          pages = field (body req) (str ''pages'');
          suggestions' = field (body req) (str ''suggestions'');
          related_searches' = field (body req) (str ''related_searches'')
      in
        if \<not> truthy query_id \<or> \<not> truthy pages then
          (Json 400 (JObj [(str ''error'', JStr (str ''Missing required fields: query_id, pages''))]),
           st)
        else
          (case save_results w query_id pages suggestions' related_searches' st of
             (Inr _, st') \<Rightarrow> (Json 200 (JObj [(str ''success'', JBool True)]), st')
           | (Inl x, st') \<Rightarrow>
               (case pool_query w Rollback st' of
                  (_, st'') \<Rightarrow> (Error500 (str ''Failed to save results'') x, st''))))"

definition post_results :: "jsstring option \<Rightarrow> world \<Rightarrow> request \<Rightarrow> pool \<Rightarrow> response \<times> pool" where
  "post_results api_key w req st = validateApiKey api_key req (results_handler w) st"


section \<open>The admin endpoint that adds queries to a project\<close>




section \<open>Sequences of requests\<close>

text \<open>Requests to \<open>GET /api/v1/queries/next\<close> served one after the other.\<close>

fun poll :: "world \<Rightarrow> request list \<Rightarrow> pool \<Rightarrow> response list \<times> pool" where
  "poll w [] st = ([], st)"
| "poll w (req # rest) st =
     (case queries_next w req st of
        (a, st1) \<Rightarrow> (case poll w rest st1 of (as, st2) \<Rightarrow> (a # as, st2)))"



section \<open>The entries of an enqueue request\<close>




section \<open>The statements of a submission\<close>

text \<open>
  No statement of \<open>POST /api/v1/results\<close> returns rows that the handler reads, so the
  statements the \<open>try\<close> block sends are fixed by the request: a list of statements and,
  when a TypeError ends the block early, that error after them. \<open>run\<close> sends the
  statements of a list in turn and stops at the first that fails.
\<close>

fun run :: "world \<Rightarrow> stmt list \<Rightarrow> pool \<Rightarrow> (error + unit) \<times> pool" where
  "run w [] st = (Inr (), st)"
| "run w (s # ss) st =
     (case pool_query w s st of
        (Inl x, st') \<Rightarrow> (Inl x, st')
      | (Inr _, st') \<Rightarrow> run w ss st')"

type_synonym plan = "stmt list \<times> error option"

definition run_plan :: "world \<Rightarrow> plan \<Rightarrow> pool \<Rightarrow> (error + unit) \<times> pool" where
  "run_plan w pl st =
     (case run w (fst pl) st of
        (Inl x, st') \<Rightarrow> (Inl x, st')
      | (Inr _, st') \<Rightarrow> (case snd pl of None \<Rightarrow> (Inr (), st') | Some x \<Rightarrow> (Inl x, st')))"

definition plan_then :: "plan \<Rightarrow> plan \<Rightarrow> plan" where
  "plan_then a b = (case snd a of None \<Rightarrow> (fst a @ fst b, snd b) | Some x \<Rightarrow> a)"

fun results_plan :: "json option \<Rightarrow> json \<Rightarrow> json list \<Rightarrow> plan" where
  "results_plan query_id page [] = ([], None)"
| "results_plan query_id page (result # rest) =
     (case result_stmt query_id page result of
        Inl x \<Rightarrow> ([], Some x)
      | Inr s \<Rightarrow> plan_then ([s], None) (results_plan query_id page rest))"

fun pages_plan :: "json option \<Rightarrow> json list \<Rightarrow> plan" where
  "pages_plan query_id [] = ([], None)"
| "pages_plan query_id (page # rest) =
     (case member page (str ''results'') of
        Inl x \<Rightarrow> ([], Some x)
      | Inr rs \<Rightarrow>
          if truthy rs \<and> isArray rs then
            (case iterate rs of
               Inl x \<Rightarrow> ([], Some x)
             | Inr xs \<Rightarrow> plan_then (results_plan query_id page xs) (pages_plan query_id rest))
          else pages_plan query_id rest)"

definition list_plan :: "(json option \<Rightarrow> stmt) \<Rightarrow> json option \<Rightarrow> plan" where
  "list_plan ins v =
     (if truthy v \<and> isArray v then
        (case iterate v of Inl x \<Rightarrow> ([], Some x) | Inr xs \<Rightarrow> (map (\<lambda>x. ins (Some x)) xs, None))
      else ([], None))"

text \<open>The statements between BEGIN and COMMIT.\<close>

definition body_plan :: "json option \<Rightarrow> json option \<Rightarrow> json option \<Rightarrow> json option \<Rightarrow> plan" where
  "body_plan query_id pages suggestions' related_searches' =
     plan_then (case iterate pages of Inl x \<Rightarrow> ([], Some x) | Inr ps \<Rightarrow> pages_plan query_id ps)
    (plan_then (list_plan (InsertSuggestion query_id) suggestions')
    (plan_then (list_plan (InsertRelated query_id) related_searches')
               ([SetStatus Completed query_id], None)))"

fun is_data :: "stmt \<Rightarrow> bool" where
  "is_data (InsertResult a b c d e f g h) = True"
| "is_data (InsertSuggestion a b) = True"
| "is_data (InsertRelated a b) = True"
| "is_data (SetStatus Completed a) = True"
| "is_data s = False"

text \<open>
  The changes a list of statements makes when each sees the changes of those before it,
  as in one transaction block, or the error of the first that fails.
\<close>

fun txn_changes :: "env \<Rightarrow> db \<Rightarrow> stmt list \<Rightarrow> error + change list" where
  "txn_changes e d [] = Inr []"
| "txn_changes e d (s # ss) =
     (case eval_stmt e s d of
        Inl x \<Rightarrow> Inl x
      | Inr (ws, rows) \<Rightarrow>
          (case txn_changes e (apply_changes d ws) ss of
             Inl x \<Rightarrow> Inl x
           | Inr ws' \<Rightarrow> Inr (ws @ ws')))"

text \<open>
  What a submission does to the tables \<open>d\<close> when it runs as one transaction: the changes
  it commits, or the error it answers with.
\<close>

definition submission_changes :: "env \<Rightarrow> request \<Rightarrow> db \<Rightarrow> error + change list" where
  "submission_changes e req d =
     (let pl = body_plan (field (body req) (str ''query_id'')) (field (body req) (str ''pages''))
                 (field (body req) (str ''suggestions''))
                 (field (body req) (str ''related_searches''))
      in case txn_changes e d (fst pl) of
           Inl x \<Rightarrow> Inl x
         | Inr ws \<Rightarrow> (case snd pl of None \<Rightarrow> Inr ws | Some x \<Rightarrow> Inl x))"







section \<open>Sequences of worker requests\<close>






section \<open>Example stores and requests\<close>

definition uP :: uuid where "uP = str ''11111111-1111-4111-8111-111111111111''"
definition uA :: uuid where "uA = str ''aaaaaaaa-aaaa-4aaa-8aaa-aaaaaaaaaaaa''"
definition uB :: uuid where "uB = str ''bbbbbbbb-bbbb-4bbb-8bbb-bbbbbbbbbbbb''"
definition uC :: uuid where "uC = str ''cccccccc-cccc-4ccc-8ccc-cccccccccccc''"

definition pending_query :: "uuid \<Rightarrow> string \<Rightarrow> int option \<Rightarrow> nat \<Rightarrow> query" where
  "pending_query i t p c =
     \<lparr>q_id = i, project_id = Some uP, search_term = str t, status = Pending, priority = p,
      created_at = c, processed_at = None\<rparr>"

definition tables :: "query list \<Rightarrow> db" where
  "tables qs =
     \<lparr>projects = [uP], queries = qs, results = [], suggestions = [], related_searches = []\<rparr>"

text \<open>A pool all of whose connections are outside a transaction block.\<close>

definition idle_pool :: "db \<Rightarrow> pool" where
  "idle_pool d = \<lparr>store = d, conns = (\<lambda>c. Idle), log = []\<rparr>"

text \<open>The pool hands every statement to connection 0; the clock ticks once a statement.\<close>

definition w0 :: world where
  "w0 k = \<lparr>conn = 0, now = 100 + k, fresh = (if k = 0 then uB else uC)\<rparr>"

definition get_req :: request where
  "get_req = \<lparr>headers = [(str ''x-api-key'', str ''secret'')], params = [], body = JObj []\<rparr>"

text \<open>Priorities 1, 5, 3 in the order of creation.\<close>

definition store_153 :: pool where
  "store_153 = idle_pool (tables [pending_query uA ''one'' (Some 1) 1,
                                  pending_query uB ''five'' (Some 5) 2,
                                  pending_query uC ''three'' (Some 3) 3])"




text \<open>
  A submission for query \<open>uA\<close> with one page of two results, a suggestion and a related
  search; and the same submission with a second result whose \<open>position\<close> is not a number.
\<close>

definition result_1 :: json where
  "result_1 = JObj [(str ''position'', JNum 1), (str ''title'', JStr (str ''first'')),
                    (str ''url'', JStr (str ''https://a.example/'')),
                    (str ''domain'', JStr (str ''a.example'')),
                    (str ''description'', JStr (str ''one''))]"


definition result_bad :: json where
  "result_bad = JObj [(str ''position'', JStr (str ''x'')), (str ''title'', JStr (str ''second''))]"

definition submit_body :: "json list \<Rightarrow> json" where
  "submit_body rs =
     JObj [(str ''query_id'', JStr uA),
           (str ''pages'', JArr [JObj [(str ''page_number'', JNum 1), (str ''results'', JArr rs)]]),
           (str ''suggestions'', JArr [JStr (str ''cats'')]),
           (str ''related_searches'', JArr [JStr (str ''dogs'')])]"


definition bad_submit_req :: request where
  "bad_submit_req = \<lparr>headers = [(str ''x-api-key'', str ''secret'')], params = [],
                      body = submit_body [result_1, result_bad]\<rparr>"

definition row_1 :: result_row where
  "row_1 = \<lparr>r_query_id = Some uA, r_page_number = Some 1, r_position = Some 1,
            r_title = Some (JStr (str ''first'')), r_url = Some (JStr (str ''https://a.example/'')),
            r_domain = Some (JStr (str ''a.example'')), r_description = Some (JStr (str ''one'')),
            r_result_type = Some (JStr (str ''organic''))\<rparr>"



definition store_claimed :: pool where
  "store_claimed =
     idle_pool (tables [(pending_query uA ''one'' (Some 1) 1)
                          \<lparr>status := Processing, processed_at := Some 50\<rparr>])"

text \<open>
  The pool hands the first statement of a request to connection 0 and, that connection
  being taken by another request in the meantime, the statements after it to
  connection 1.
\<close>

definition w_split :: world where
  "w_split k = \<lparr>conn = (if k = 0 then 0 else 1), now = 100 + k, fresh = uC\<rparr>"


section \<open>Statements outside a transaction block\<close>



section \<open>The claim operation\<close>









lemma length_poll: "length (fst (poll w reqs st)) = length reqs"
  by (induction reqs arbitrary: st) (simp_all add: split_beta)

declare poll.simps(2) [simp del]







subsection \<open>C5\<close>




subsection \<open>C7\<close>




subsection \<open>C3\<close>





section \<open>Rejected requests\<close>

subsection \<open>C9\<close>

text \<open>
  C9. When the header \<open>x-api-key\<close> is absent, or differs from the configured
  \<open>API_KEY\<close>, both worker endpoints answer 401 and leave the pool as it was, its log of
  statements included: no statement is sent.
\<close>

theorem bad_key_unauthorized:
  assumes "map_of (headers req) (str ''x-api-key'') = None \<or>
           map_of (headers req) (str ''x-api-key'') \<noteq> api_key"
  shows "get_queries_next api_key w req st =
           (Json 401 (JObj [(str ''error'', JStr (str ''Invalid API key''))]), st) \<and>
         post_results api_key w req st =
           (Json 401 (JObj [(str ''error'', JStr (str ''Invalid API key''))]), st)"
  using assms
  by (cases "map_of (headers req) (str ''x-api-key'')")
     (simp_all add: get_queries_next_def post_results_def validateApiKey_def)

theorem bad_key_unauthorized_witness:
  "get_queries_next (Some (str ''secret'')) w0 (get_req\<lparr>headers := []\<rparr>) store_153 =
     (Json 401 (JObj [(str ''error'', JStr (str ''Invalid API key''))]), store_153) \<and>
   post_results (Some (str ''other'')) w0 get_req store_153 =
     (Json 401 (JObj [(str ''error'', JStr (str ''Invalid API key''))]), store_153)"
proof -
  have a: "map_of (headers (get_req\<lparr>headers := []\<rparr>)) (str ''x-api-key'') = None \<or>
           map_of (headers (get_req\<lparr>headers := []\<rparr>)) (str ''x-api-key'') \<noteq>
             Some (str ''secret'')"
    by simp
  have b: "map_of (headers get_req) (str ''x-api-key'') = None \<or>
           map_of (headers get_req) (str ''x-api-key'') \<noteq> Some (str ''other'')"
    by (simp add: get_req_def str_def)
  from bad_key_unauthorized [OF a, of w0 store_153] bad_key_unauthorized [OF b, of w0 store_153]
  show ?thesis by blast
qed


subsection \<open>C6\<close>

text \<open>
  C6. When \<open>query_id\<close> or \<open>pages\<close> is absent from the body, or is \<open>null\<close>, the handler
  of \<open>POST /api/v1/results\<close> answers 400 with the validation message and leaves the pool
  as it was, its log of statements included: no statement is sent. Behind the key check
  the endpoint leaves the pool as it was too.
\<close>

theorem missing_fields_rejected:
  assumes "field (body req) (str ''query_id'') \<in> {None, Some JNull} \<or>
           field (body req) (str ''pages'') \<in> {None, Some JNull}"
  shows "results_handler w req st =
           (Json 400 (JObj [(str ''error'',
                             JStr (str ''Missing required fields: query_id, pages''))]), st) \<and>
         snd (post_results api_key w req st) = st"
  using assms
  by (auto simp: results_handler_def post_results_def validateApiKey_def Let_def)

theorem missing_fields_rejected_witness:
  "results_handler w0 (get_req\<lparr>body := JObj [(str ''query_id'', JStr uA)]\<rparr>) store_153 =
     (Json 400 (JObj [(str ''error'',
                       JStr (str ''Missing required fields: query_id, pages''))]), store_153)"
proof -
  have a: "field (body (get_req\<lparr>body := JObj [(str ''query_id'', JStr uA)]\<rparr>)) (str ''query_id'')
             \<in> {None, Some JNull} \<or>
           field (body (get_req\<lparr>body := JObj [(str ''query_id'', JStr uA)]\<rparr>)) (str ''pages'')
             \<in> {None, Some JNull}"
    by (simp add: str_def)
  from missing_fields_rejected [OF a, of w0 store_153] show ?thesis by blast
qed


section \<open>Adding queries to a project\<close>

lemma trim_Nil_iff: "trim s = [] \<longleftrightarrow> (\<forall>c\<in>set s. is_ws c)"
proof
  assume "trim s = []"
  then have a: "\<forall>x\<in>set (dropWhile is_ws s). is_ws x"
    by (simp add: trim_def)
  have "dropWhile is_ws s = []"
  proof (rule ccontr)
    assume n: "dropWhile is_ws s \<noteq> []"
    then have "\<not> is_ws (hd (dropWhile is_ws s))" by (rule hd_dropWhile)
    moreover from n have "hd (dropWhile is_ws s) \<in> set (dropWhile is_ws s)" by simp
    ultimately show False using a by blast
  qed
  then show "\<forall>c\<in>set s. is_ws c" by simp
next
  assume "\<forall>c\<in>set s. is_ws c"
  then show "trim s = []" by (auto simp: trim_def dest: set_dropWhileD)
qed





subsection \<open>C10\<close>




section \<open>The submission as a list of statements\<close>

lemma run_append:
  "run w (a @ b) st =
     (case run w a st of (Inl x, st') \<Rightarrow> (Inl x, st') | (Inr _, st') \<Rightarrow> run w b st')"
  by (induction a arbitrary: st) (auto split: prod.splits sum.splits)

lemma run_plan_then:
  "run_plan w (plan_then a b) st =
     (case run_plan w a st of (Inl x, st') \<Rightarrow> (Inl x, st') | (Inr _, st') \<Rightarrow> run_plan w b st')"
  by (cases a; cases b)
     (auto simp: run_plan_def plan_then_def run_append split: prod.splits sum.splits option.splits)

lemma run_plan_single:
  "run_plan w ([s], None) st =
     (case pool_query w s st of (Inl x, st') \<Rightarrow> (Inl x, st') | (Inr _, st') \<Rightarrow> (Inr (), st'))"
  by (auto simp: run_plan_def split: prod.splits sum.splits)

lemma run_plan_fail: "run_plan w ([], Some x) st = (Inl x, st)"
  by (simp add: run_plan_def)

lemma run_plan_nothing: "run_plan w ([], None) st = (Inr (), st)"
  by (simp add: run_plan_def)

lemma insert_results_plan:
  "insert_results w q page rs st = run_plan w (results_plan q page rs) st"
proof (induction rs arbitrary: st)
  case Nil
  show ?case by (simp add: run_plan_nothing)
next
  case (Cons r rs)
  show ?case
    by (cases "result_stmt q page r")
       (auto simp: run_plan_fail run_plan_then run_plan_single Cons.IH
             split: prod.splits sum.splits)
qed

lemma insert_pages_plan:
  "insert_pages w q ps st = run_plan w (pages_plan q ps) st"
proof (induction ps arbitrary: st)
  case Nil
  show ?case by (simp add: run_plan_nothing)
next
  case (Cons p ps)
  show ?case
    by (auto simp: run_plan_fail run_plan_then insert_results_plan Cons.IH
             split: prod.splits sum.splits)
qed

lemma insert_each_run:
  "insert_each w ins xs st = run w (map (\<lambda>x. ins (Some x)) xs) st"
  by (induction xs arbitrary: st) (auto split: prod.splits sum.splits)

lemma insert_list_plan:
  "insert_list w ins v st = run_plan w (list_plan ins v) st"
  by (auto simp: insert_list_def list_plan_def run_plan_fail run_plan_nothing insert_each_run
        run_plan_def split: prod.splits sum.splits)

lemma save_results_plan:
  "save_results w q pages sg rl st =
     run_plan w (plan_then ([Begin], None)
                  (plan_then (body_plan q pages sg rl) ([Commit], None))) st"
  by (auto simp: save_results_def body_plan_def run_plan_then run_plan_single run_plan_fail
        insert_pages_plan insert_list_plan split: prod.splits sum.splits)


section \<open>A submission on one connection\<close>

lemma fst_plan_then:
  "set (fst (plan_then a b)) \<subseteq> set (fst a) \<union> set (fst b)"
  by (auto simp: plan_then_def split: option.splits)

lemma result_stmt_data: "result_stmt q page r = Inr s \<Longrightarrow> is_data s"
  by (auto simp: result_stmt_def split: sum.splits)

lemma results_plan_data: "s \<in> set (fst (results_plan q page rs)) \<Longrightarrow> is_data s"
proof (induction rs)
  case Nil
  then show ?case by simp
next
  case (Cons r rs)
  then show ?case
    by (cases "result_stmt q page r")
       (auto simp: plan_then_def dest: result_stmt_data split: option.splits)
qed

lemma pages_plan_data: "s \<in> set (fst (pages_plan q ps)) \<Longrightarrow> is_data s"
proof (induction ps)
  case Nil
  then show ?case by simp
next
  case (Cons p ps)
  then show ?case
    by (auto simp: plan_then_def dest: results_plan_data
             split: sum.splits if_splits option.splits)
qed

lemma list_plan_data:
  assumes "\<And>x. is_data (ins x)" and "s \<in> set (fst (list_plan ins v))"
  shows "is_data s"
  using assms by (auto simp: list_plan_def split: if_splits sum.splits)

lemma body_plan_data: "s \<in> set (fst (body_plan q pages sg rl)) \<Longrightarrow> is_data s"
  unfolding body_plan_def
  by (auto simp: plan_then_def
           dest: pages_plan_data list_plan_data [where ins = "InsertSuggestion q", rotated]
                 list_plan_data [where ins = "InsertRelated q", rotated]
           split: sum.splits option.splits if_splits)

lemma eval_data_env: "is_data s \<Longrightarrow> eval_stmt e s d = eval_stmt e' s d"
  by (cases s) simp_all

lemma txn_changes_env:
  "\<forall>s\<in>set ss. is_data s \<Longrightarrow> txn_changes e d ss = txn_changes e' d ss"
proof (induction ss arbitrary: d)
  case Nil
  show ?case by simp
next
  case (Cons s ss)
  then have "eval_stmt e s d = eval_stmt e' s d" by (simp add: eval_data_env)
  with Cons show ?case by (auto split: sum.splits)
qed

lemma on_conn_data:
  assumes "is_data s"
  shows "on_conn e s d (InTxn p) =
           (case eval_stmt e s (apply_changes d p) of
              Inl x \<Rightarrow> (Inl x, d, Aborted)
            | Inr (ws, rows) \<Rightarrow> (Inr rows, d, InTxn (p @ ws)))"
  using assms by (cases s) simp_all

lemma apply_changes_append:
  "apply_changes d (a @ b) = apply_changes (apply_changes d a) b"
  by (simp add: apply_changes_def)

lemma run_txn:
  assumes "\<forall>k. conn (w k) = c" and "conns st c = InTxn p" and "\<forall>s\<in>set ss. is_data s"
  shows "store (snd (run w ss st)) = store st \<and>
         (case txn_changes e (apply_changes (store st) p) ss of
            Inl x \<Rightarrow> fst (run w ss st) = Inl x \<and>
                     conns (snd (run w ss st)) = (conns st)(c := Aborted)
          | Inr ws \<Rightarrow> fst (run w ss st) = Inr () \<and>
                      conns (snd (run w ss st)) = (conns st)(c := InTxn (p @ ws)))"
  using assms
proof (induction ss arbitrary: st p)
  case Nil
  then show ?case by (simp add: fun_upd_idem)
next
  case (Cons s ss)
  note IH = Cons.IH and prems = Cons.prems
  from prems(3) have ds: "is_data s" and dss: "\<forall>s\<in>set ss. is_data s" by simp_all
  let ?e1 = "w (length (log st))"
  let ?v = "apply_changes (store st) p"
  have ev: "eval_stmt ?e1 s ?v = eval_stmt e s ?v" using ds by (rule eval_data_env)
  show ?case
  proof (cases "eval_stmt e s ?v")
    case (Inl x)
    with ev prems(1,2) ds show ?thesis
      by (simp add: pool_query_def Let_def on_conn_data)
  next
    case (Inr r)
    obtain ws rows where r: "r = (ws, rows)" by (cases r)
    let ?st1 = "\<lparr>store = store st, conns = (conns st)(c := InTxn (p @ ws)),
                 log = log st @ [(c, s)]\<rparr>"
    from Inr r ev prems(1,2) ds have step: "pool_query w s st = (Inr rows, ?st1)"
      by (simp add: pool_query_def Let_def on_conn_data)
    have c1: "conns ?st1 c = InTxn (p @ ws)" by simp
    from IH [OF prems(1) c1 dss] Inr r step show ?thesis
      by (auto simp: apply_changes_append split: sum.splits)
  qed
qed

lemma pool_query_control:
  "store (snd (pool_query w Begin st)) = store st"
  "store (snd (pool_query w Rollback st)) = store st"
  "conns st (conn (w (length (log st)))) = Idle \<Longrightarrow>
     conns (snd (pool_query w Begin st)) = (conns st)(conn (w (length (log st))) := InTxn []) \<and>
     fst (pool_query w Begin st) = Inr []"
  "conns st (conn (w (length (log st)))) \<noteq> Idle \<Longrightarrow>
     conns (snd (pool_query w Rollback st)) = (conns st)(conn (w (length (log st))) := Idle)"
  "conns st (conn (w (length (log st)))) = InTxn p \<Longrightarrow>
     conns (snd (pool_query w Commit st)) = (conns st)(conn (w (length (log st))) := Idle) \<and>
     store (snd (pool_query w Commit st)) = apply_changes (store st) p \<and>
     fst (pool_query w Commit st) = Inr []"
  by (cases "conns st (conn (w (length (log st))))"; simp add: pool_query_def Let_def)+

lemma save_results_expand:
  "save_results w q pages sg rl st =
     (case pool_query w Begin st of
        (Inl x, st1) \<Rightarrow> (Inl x, st1)
      | (Inr u, st1) \<Rightarrow>
          (case run w (fst (body_plan q pages sg rl)) st1 of
             (Inl x, st2) \<Rightarrow> (Inl x, st2)
           | (Inr u, st2) \<Rightarrow>
               (case snd (body_plan q pages sg rl) of
                  Some x \<Rightarrow> (Inl x, st2)
                | None \<Rightarrow>
                    (case pool_query w Commit st2 of
                       (Inl x, st3) \<Rightarrow> (Inl x, st3)
                     | (Inr u, st3) \<Rightarrow> (Inr (), st3)))))"
  unfolding save_results_plan run_plan_then run_plan_single
  by (auto simp: run_plan_def split: prod.splits sum.splits option.splits)

lemma results_handler_single:
  assumes single: "\<forall>k. conn (w k) = c" and idle: "conns st c = Idle"
      and valid: "truthy (field (body req) (str ''query_id''))"
                 "truthy (field (body req) (str ''pages''))"
  shows "conns (snd (results_handler w req st)) = conns st \<and>
         (case submission_changes e req (store st) of
            Inl x \<Rightarrow>
              fst (results_handler w req st) = Error500 (str ''Failed to save results'') x \<and>
              store (snd (results_handler w req st)) = store st
          | Inr ws \<Rightarrow>
              fst (results_handler w req st) = Json 200 (JObj [(str ''success'', JBool True)]) \<and>
              store (snd (results_handler w req st)) = apply_changes (store st) ws)"
proof -
  let ?q = "field (body req) (str ''query_id'')"
  let ?pl = "body_plan ?q (field (body req) (str ''pages''))
               (field (body req) (str ''suggestions''))
               (field (body req) (str ''related_searches''))"
  from single idle have i0: "conns st (conn (w (length (log st)))) = Idle" by simp
  obtain b st1 where B: "pool_query w Begin st = (b, st1)" by force
  from pool_query_control(1,3) [where w = w and st = st] i0 single B
  have b: "b = Inr []" "store st1 = store st" "conns st1 = (conns st)(c := InTxn [])"
    by simp_all
  then have c1: "conns st1 c = InTxn []" by simp
  have data: "\<forall>s\<in>set (fst ?pl). is_data s" using body_plan_data by blast
  obtain r st2 where R: "run w (fst ?pl) st1 = (r, st2)" by force
  from run_txn [OF single c1 data, of e] b(2)
  have s2: "store st2 = store st" by (simp add: R)
  from run_txn [OF single c1 data, of e] b(2)
  have r2: "case txn_changes e (store st) (fst ?pl) of
            Inl x \<Rightarrow> r = Inl x \<and> conns st2 = (conns st1)(c := Aborted)
          | Inr ws \<Rightarrow> r = Inr () \<and> conns st2 = (conns st1)(c := InTxn ([] @ ws))"
    by (auto simp: apply_changes_def R split: sum.splits)
  have h: "results_handler w req st =
      (case r of
         Inl x \<Rightarrow>
           (Error500 (str ''Failed to save results'') x, snd (pool_query w Rollback st2))
       | Inr u \<Rightarrow>
           (case snd ?pl of
              Some x \<Rightarrow>
                (Error500 (str ''Failed to save results'') x, snd (pool_query w Rollback st2))
            | None \<Rightarrow>
                (case pool_query w Commit st2 of
                   (Inl x, st'') \<Rightarrow>
                     (Error500 (str ''Failed to save results'') x,
                      snd (pool_query w Rollback st''))
                 | (Inr u, st'') \<Rightarrow>
                     (Json 200 (JObj [(str ''success'', JBool True)]), st''))))"
    using valid b(1)
    by (auto simp: results_handler_def Let_def save_results_expand B R
             split: prod.splits sum.splits option.splits)
  have rollback: "store (snd (pool_query w Rollback st2)) = store st \<and>
                  conns (snd (pool_query w Rollback st2)) = conns st"
    if n: "conns st2 c \<noteq> Idle" and c2: "\<exists>cs. conns st2 = (conns st1)(c := cs)"
  proof -
    from n single have "conns st2 (conn (w (length (log st2)))) \<noteq> Idle" by simp
    from pool_query_control(2,4) [where w = w and st = st2] this single c2 b(3) idle s2
    show ?thesis by (auto simp: fun_upd_idem)
  qed
  show ?thesis
  proof (cases "txn_changes e (store st) (fst ?pl)")
    case (Inl x)
    with r2 have f: "r = Inl x" and c2: "conns st2 = (conns st1)(c := Aborted)"
      by simp_all
    have hr: "results_handler w req st =
        (Error500 (str ''Failed to save results'') x, snd (pool_query w Rollback st2))"
      by (simp add: h f)
    from c2 have "conns st2 c \<noteq> Idle" "\<exists>cs. conns st2 = (conns st1)(c := cs)" by auto
    from rollback [OF this] hr Inl show ?thesis
      by (simp add: submission_changes_def Let_def)
  next
    case (Inr ws)
    with r2 have f: "r = Inr ()" and c2: "conns st2 = (conns st1)(c := InTxn ws)"
      by simp_all
    show ?thesis
    proof (cases "snd ?pl")
      case (Some x)
      have hr: "results_handler w req st =
        (Error500 (str ''Failed to save results'') x, snd (pool_query w Rollback st2))"
        by (simp add: h f Some)
      from c2 have "conns st2 c \<noteq> Idle" "\<exists>cs. conns st2 = (conns st1)(c := cs)" by auto
      from rollback [OF this] hr Inr Some show ?thesis
        by (simp add: submission_changes_def Let_def)
    next
      case None
      obtain k st3 where C: "pool_query w Commit st2 = (k, st3)" by force
      from c2 single have t: "conns st2 (conn (w (length (log st2)))) = InTxn ws" by simp
      from pool_query_control(5) [where w = w and st = st2 and p = ws, OF t] single c2 b(3)
        idle s2 C
      have c3: "k = Inr []" "store st3 = apply_changes (store st) ws" "conns st3 = conns st"
        by (simp_all add: fun_upd_idem)
      have hr: "results_handler w req st =
        (Json 200 (JObj [(str ''success'', JBool True)]), st3)"
        by (simp add: h f None C c3(1))
      with c3 Inr None show ?thesis by (simp add: submission_changes_def Let_def)
    qed
  qed
qed


section \<open>The changes of a submission\<close>









section \<open>Submissions\<close>



text \<open>
  On one connection a submission is one transaction: an answer other than the success
  leaves the tables as they were.
\<close>

lemma submission_atomic_on_one_connection:
  assumes single: "\<forall>k. conn (w k) = c" and idle: "conns st c = Idle"
      and fail: "fst (results_handler w req st) \<noteq> Json 200 (JObj [(str ''success'', JBool True)])"
  shows "store (snd (results_handler w req st)) = store st \<and>
         conns (snd (results_handler w req st)) = conns st"
proof (cases "truthy (field (body req) (str ''query_id'')) \<and>
              truthy (field (body req) (str ''pages''))")
  case False
  then show ?thesis by (auto simp: results_handler_def Let_def)
next
  case True
  then have v: "truthy (field (body req) (str ''query_id''))"
    "truthy (field (body req) (str ''pages''))" by simp_all
  from results_handler_single [OF single idle v, of "w 0"] fail show ?thesis
    by (cases "submission_changes (w 0) req (store st)") simp_all
qed


subsection \<open>C2\<close>

text \<open>
  C2 fails on the code. BEGIN, the INSERTs, the UPDATE, COMMIT and ROLLBACK each go
  through \<open>pool.query\<close>, which takes a connection of the pool for that one statement. Here
  BEGIN runs on connection 0 and the statements after it on connection 1, outside any
  transaction block: the first result row is committed by itself, the second INSERT fails
  on its \<open>position\<close>, the answer is the error, and the first row stays in \<open>results\<close>.
  (On one connection the submission is atomic: \<open>submission_atomic_on_one_connection\<close>.)
\<close>

theorem partial_commit_on_two_connections:
  "results (store store_claimed) = [] \<and>
   fst (results_handler w_split bad_submit_req store_claimed) =
     Error500 (str ''Failed to save results'') InvalidTextRepresentation \<and>
   results (store (snd (results_handler w_split bad_submit_req store_claimed))) = [row_1]"
  by code_simp

theorem partial_commit_on_two_connections_witness:
  "results (store (snd (results_handler w_split bad_submit_req store_claimed))) \<noteq>
     results (store store_claimed)"
  using partial_commit_on_two_connections by simp


subsection \<open>C8\<close>




section \<open>The life cycle of a query\<close>








subsection \<open>C4\<close>




end
